theory Spec2Isabelle
  imports Complex_Main "HOL-Library.AList"
begin

section \<open>The program\<close>

text \<open>
  A shallow embedding of the benchmark engine of the repository: the Parameter Expander,
  the Execution Sandbox, the Statistics Engine and the Regression Detector of
  \<^verbatim>\<open>run_comprehensive_benchmarks.py\<close>, and the statistics of
  \<^verbatim>\<open>scripts/process_results.py\<close>. A Python float is a real number (no infinity,
  no NaN). In the functions whose branches compare computed floats (the comparison of
  two implementations and the regression detector) the float operations are a
  parameter \<open>fl\<close> of the model, so that what is proved of them holds for the machine's
  rounded arithmetic as well as for exact arithmetic; the other functions compute with
  exact arithmetic, \<^verbatim>\<open>x ** 0.5\<close> being \<^const>\<open>sqrt\<close>. A dict is an association list
  in insertion order.
\<close>

subsection \<open>Float arithmetic\<close>

text \<open>The float operations the modelled code uses: \<^verbatim>\<open>sum\<close> of a list of floats,
  \<^verbatim>\<open>+\<close>, \<^verbatim>\<open>-\<close>, \<^verbatim>\<open>*\<close>, \<^verbatim>\<open>/\<close>, \<^verbatim>\<open>x ** 2\<close> and \<^verbatim>\<open>x ** 0.5\<close>.
  Comparisons and \<^verbatim>\<open>abs\<close> are exact on floats. An integer operand is converted
  to the float of the same value.\<close>

record float_ops =
  fl_sum :: "real list \<Rightarrow> real"
  fl_add :: "real \<Rightarrow> real \<Rightarrow> real"
  fl_sub :: "real \<Rightarrow> real \<Rightarrow> real"
  fl_mul :: "real \<Rightarrow> real \<Rightarrow> real"
  fl_div :: "real \<Rightarrow> real \<Rightarrow> real"
  fl_square :: "real \<Rightarrow> real"
  fl_root :: "real \<Rightarrow> real"

text \<open>The operations without rounding.\<close>

definition exact_arithmetic :: float_ops where
  "exact_arithmetic =
     \<lparr>fl_sum = sum_list, fl_add = (+), fl_sub = (-), fl_mul = (*), fl_div = (/),
      fl_square = (\<lambda>x. x\<^sup>2), fl_root = sqrt\<rparr>"

subsection \<open>Parameter Expander\<close>

text \<open>
  \<^verbatim>\<open>BenchmarkRunner.generate_parameter_combinations\<close> of
  \<^verbatim>\<open>run_comprehensive_benchmarks.py\<close>. A parameter is a dict with the keys
  \<^verbatim>\<open>name\<close> and \<^verbatim>\<open>values\<close>; a value definition is a dict with the keys
  \<^verbatim>\<open>type\<close> and \<^verbatim>\<open>value\<close>. The expander never inspects the value itself, it only
  copies it, so the value type is a type variable; equality on it stands for Python's
  \<^verbatim>\<open>==\<close> on the values.

  A parameter combination is a Python dict. It is modelled as an association list in
  insertion order; \<^const>\<open>AList.update\<close> is the dict assignment \<^verbatim>\<open>d[k] = v\<close>
  (an existing key keeps its place and gets the new value, a new key goes last), and
  \<^const>\<open>map_of\<close> gives the mapping that Python's dict equality compares.
\<close>

record 'v value_def =
  value_type :: string
  value_value :: "'v"

record 'v param =
  param_name :: string
  param_values :: "'v value_def list"

type_synonym 'v combo = "(string \<times> 'v) list"

text \<open>The \<^verbatim>\<open>if/elif/else\<close> chain on \<^verbatim>\<open>value_def['type']\<close>; \<open>None\<close> is the
  \<^verbatim>\<open>continue\<close> of the last branch.\<close>

definition extract_value :: "'v value_def \<Rightarrow> 'v option" where
  "extract_value value_def =
     (if value_type value_def = ''Integer'' then Some (value_value value_def)
      else if value_type value_def = ''Float'' then Some (value_value value_def)
      else if value_type value_def = ''String'' then Some (value_value value_def)
      else if value_type value_def = ''Boolean'' then Some (value_value value_def)
      else None)"

text \<open>The body of the innermost loop: one existing combination, one value definition,
  appended to \<^verbatim>\<open>new_combinations\<close> unless the type is unknown.\<close>

definition add_combo ::
  "string \<Rightarrow> 'v value_def \<Rightarrow> 'v combo \<Rightarrow> 'v combo list \<Rightarrow> 'v combo list" where
  "add_combo name value_def existing_combo new_combinations =
     (case extract_value value_def of
        None \<Rightarrow> new_combinations
      | Some v \<Rightarrow> new_combinations @ [AList.update name v existing_combo])"

text \<open>The body of the loop over the parameters: the values are the outer loop, the
  combinations built so far the inner one.\<close>

definition expand_param :: "'v param \<Rightarrow> 'v combo list \<Rightarrow> 'v combo list" where
  "expand_param p combinations =
     fold (\<lambda>value_def new_combinations.
             fold (add_combo (param_name p) value_def) combinations new_combinations)
          (param_values p) []"

definition generate_parameter_combinations :: "'v param list \<Rightarrow> 'v combo list" where
  "generate_parameter_combinations parameters =
     (if parameters = [] then [[]] else fold expand_param parameters [[]])"

text \<open>The types the expander knows.\<close>

definition supported_type :: "string \<Rightarrow> bool" where
  "supported_type t =
     (t = ''Integer'' \<or> t = ''Float'' \<or> t = ''String'' \<or> t = ''Boolean'')"

definition all_supported :: "'v param list \<Rightarrow> bool" where
  "all_supported ps =
     list_all (\<lambda>p. list_all (\<lambda>vd. supported_type (value_type vd)) (param_values p)) ps"

subsection \<open>Errors\<close>

text \<open>The exceptions the modelled functions let escape.\<close>

datatype py_error = ZeroDivisionError | UnboundLocalError | WriteError

subsection \<open>Execution Sandbox\<close>

text \<open>
  \<^verbatim>\<open>BenchmarkRunner.run_single_test\<close> and \<^verbatim>\<open>execute_test_file\<close>. What the host
  does is an input of the model: \<open>spawn h cmd k\<close> is how the \<open>k\<close>-th process of the run
  (counted from 0, warmups included) ends, \<open>wall_clock h k\<close> is the difference of the two
  \<^verbatim>\<open>time.time()\<close> readings around it, and \<open>temp_stem h\<close> is the name
  \<^verbatim>\<open>NamedTemporaryFile\<close> picks, without the suffix. \<open>write_ok h\<close> says whether
  writing the source text into the file just created succeeds; it does not when the
  text cannot be encoded or the disk is full, and then \<^verbatim>\<open>f.write\<close> raises (any such
  exception is \<^const>\<open>WriteError\<close>). The file system is a map from paths to contents;
  the spawned processes are taken to leave it alone.
\<close>

datatype proc_outcome =
    Completed int string string  \<comment> \<open>return code, stdout, stderr\<close>
  | TimeoutExpired
  | Raised string  \<comment> \<open>any other exception, with its text\<close>

record host =
  spawn :: "string list \<Rightarrow> nat \<Rightarrow> proc_outcome"
  wall_clock :: "nat \<Rightarrow> real"
  temp_stem :: string
  write_ok :: bool

record runtime =
  target_dir :: string
  profile :: string
  binary_path :: string
  args :: "string list"

record implementation =
  impl_id :: string
  impl_name :: string
  impl_runtime :: runtime

record 'v test_def =
  test_name :: string
  code_template :: string
  test_parameters :: "'v param list"

record statistical_config =
  iterations :: int
  warmup_iterations :: int

text \<open>An ExecutionResult. The keys a branch of \<^verbatim>\<open>run_single_test\<close> does not write
  are \<open>None\<close>.\<close>

record 'v exec_result =
  er_implementation :: string
  er_test_name :: string
  er_category :: string
  er_parameters :: "'v combo"
  er_success :: bool
  er_mean_time_seconds :: "real option"
  er_ops_per_second :: "real option"
  er_timing_results :: "real list"
  er_iterations :: "nat option"
  er_error :: "string option"

type_synonym file_system = "string \<rightharpoonup> string"

text \<open>\<^verbatim>\<open>str.replace(old, new)\<close> for a non-empty \<open>old\<close>: every occurrence, left to
  right, without overlap. (The placeholders it is called with are never empty.)\<close>

function str_replace :: "string \<Rightarrow> string \<Rightarrow> string \<Rightarrow> string" where
  "str_replace old new [] = []"
| "str_replace old new (c # cs) =
     (if old \<noteq> [] \<and> take (length old) (c # cs) = old
      then new @ str_replace old new (drop (length old) (c # cs))
      else c # str_replace old new cs)"
  by pat_completeness auto
termination
  by (relation "measure (\<lambda>(old, new, s). length s)") (auto simp: neq_Nil_conv)

text \<open>The substitution loop; \<open>str_of\<close> is Python's \<^verbatim>\<open>str\<close> on a parameter value.\<close>

definition substitute_parameters :: "('v \<Rightarrow> string) \<Rightarrow> string \<Rightarrow> 'v combo \<Rightarrow> string" where
  "substitute_parameters str_of template params =
     fold (\<lambda>(param_name, param_value) code.
             str_replace (''{'' @ param_name @ ''}'') (str_of param_value) code)
          params template"

definition command_line :: "implementation \<Rightarrow> string \<Rightarrow> string list" where
  "command_line impl test_file =
     (if impl_id impl = ''lambdust''
      then [target_dir (impl_runtime impl) @ ''/'' @ profile (impl_runtime impl) @ ''/lambdust'',
            ''--batch'', test_file]
      else [binary_path (impl_runtime impl)] @ args (impl_runtime impl) @ [test_file])"

text \<open>\<^verbatim>\<open>execute_test_file\<close>: (success, stdout, stderr), every exception caught.\<close>

definition execute_test_file ::
  "host \<Rightarrow> implementation \<Rightarrow> string \<Rightarrow> nat \<Rightarrow> bool \<times> string \<times> string" where
  "execute_test_file h impl test_file k =
     (case spawn h (command_line impl test_file) k of
        Completed returncode out err \<Rightarrow> (returncode = 0, out, err)
      | TimeoutExpired \<Rightarrow> (False, [], ''Test timed out'')
      | Raised e \<Rightarrow> (False, [], e))"

text \<open>The measurement loop. Its state: the number of the next process, the timings so
  far and the variable \<^verbatim>\<open>error\<close> (\<open>None\<close> while it is unbound). The first argument counts
  the iterations left; a failure is the \<^verbatim>\<open>break\<close>.\<close>

fun measurement_runs ::
  "host \<Rightarrow> implementation \<Rightarrow> string \<Rightarrow> nat \<Rightarrow> nat \<Rightarrow> real list \<Rightarrow> string option
     \<Rightarrow> real list \<times> string option" where
  "measurement_runs h impl test_file 0 k timing_results error = (timing_results, error)"
| "measurement_runs h impl test_file (Suc n) k timing_results error =
     (case execute_test_file h impl test_file k of
        (success, output, err) \<Rightarrow>
          if success
          then measurement_runs h impl test_file n (Suc k)
                 (timing_results @ [wall_clock h k]) (Some err)
          else (timing_results, Some err))"

text \<open>The body of the \<^verbatim>\<open>try\<close> block. The warmup runs are processes \<open>0\<close> to
  \<open>warmup - 1\<close>; their results are dropped. With no timing and \<^verbatim>\<open>error\<close> unbound
  (no iteration ran), reading \<^verbatim>\<open>error\<close> raises.\<close>

definition run_measurements ::
  "host \<Rightarrow> statistical_config \<Rightarrow> implementation \<Rightarrow> 'v test_def \<Rightarrow> 'v combo \<Rightarrow> string
     \<Rightarrow> string \<Rightarrow> py_error + 'v exec_result" where
  "run_measurements h config impl test params category temp_file =
     (let warmup = nat (warmup_iterations config);
          (timing_results, error) =
             measurement_runs h impl temp_file (nat (iterations config)) warmup [] None
      in if timing_results \<noteq> []
         then (let mean_time = sum_list timing_results / real (length timing_results);
                   ops_per_second = (if mean_time > 0 then 1 / mean_time else 0)
               in Inr \<lparr>er_implementation = impl_id impl, er_test_name = test_name test,
                       er_category = category, er_parameters = params, er_success = True,
                       er_mean_time_seconds = Some mean_time,
                       er_ops_per_second = Some ops_per_second,
                       er_timing_results = timing_results,
                       er_iterations = Some (length timing_results), er_error = None\<rparr>)
         else (case error of
                 None \<Rightarrow> Inl UnboundLocalError
               | Some e \<Rightarrow>
                   Inr \<lparr>er_implementation = impl_id impl, er_test_name = test_name test,
                        er_category = category, er_parameters = params, er_success = False,
                        er_mean_time_seconds = None, er_ops_per_second = None,
                        er_timing_results = [], er_iterations = None,
                        er_error = Some (if e = [] then ''Test execution failed'' else e)\<rparr>))"

text \<open>The suffix of the temporary file.\<close>

definition file_extension :: "implementation \<Rightarrow> string" where
  "file_extension impl = (if impl_id impl = ''lambdust'' then ''.ldust'' else ''.scm'')"

text \<open>\<^verbatim>\<open>run_single_test\<close>: the file system after the run and what the run returns or
  raises. \<^verbatim>\<open>NamedTemporaryFile(..., delete=False)\<close> creates the file, empty; the
  \<^verbatim>\<open>with\<close> block that writes it stands before the \<^verbatim>\<open>try\<close>, so an exception of
  the write leaves the function at once, with the file as it is (nothing written, in the
  model). Once the \<^verbatim>\<open>try\<close> is entered, the \<^verbatim>\<open>finally\<close> clause runs after the body
  however it ends.\<close>

definition run_single_test ::
  "host \<Rightarrow> statistical_config \<Rightarrow> ('v \<Rightarrow> string) \<Rightarrow> file_system \<Rightarrow> implementation
     \<Rightarrow> 'v test_def \<Rightarrow> 'v combo \<Rightarrow> string \<Rightarrow> file_system \<times> (py_error + 'v exec_result)" where
  "run_single_test h config str_of fs impl test params category =
     (let code = substitute_parameters str_of (code_template test) params;
          temp_file = temp_stem h @ file_extension impl;
          fs_created = fs(temp_file \<mapsto> [])
      in if \<not> write_ok h then (fs_created, Inl WriteError)
         else
           (let fs_written = fs_created(temp_file \<mapsto> code);
                outcome = run_measurements h config impl test params category temp_file;
                fs_unlinked = fs_written(temp_file := None)
            in (fs_unlinked, outcome)))"

subsection \<open>Statistics Engine\<close>

text \<open>\<^verbatim>\<open>calculate_descriptive_stats\<close>. The empty dict it returns on no data is
  \<open>None\<close>. With at least one value every index it reads is in range.\<close>

record descriptive_stats =
  ds_count :: nat
  ds_mean :: real
  ds_median :: real
  ds_std_dev :: real
  ds_min :: real
  ds_max :: real
  ds_q25 :: real
  ds_q75 :: real

definition calculate_descriptive_stats :: "real list \<Rightarrow> descriptive_stats option" where
  "calculate_descriptive_stats data =
     (if data = [] then None
      else
        (let sorted_values = sort data;
             n = length sorted_values;
             mean = sum_list sorted_values / real n;
             variance =
               (if n > 1
                then sum_list (map (\<lambda>x. (x - mean)\<^sup>2) sorted_values) / real (n - 1)
                else 0);
             std_dev = sqrt variance;
             median =
               (if n mod 2 = 1 then sorted_values ! (n div 2)
                else (sorted_values ! (n div 2 - 1) + sorted_values ! (n div 2)) / 2)
         in Some \<lparr>ds_count = n, ds_mean = mean, ds_median = median, ds_std_dev = std_dev,
                  ds_min = sorted_values ! 0, ds_max = last sorted_values,
                  ds_q25 = sorted_values ! (n div 4),
                  ds_q75 = sorted_values ! (3 * n div 4)\<rparr>))"

text \<open>\<^verbatim>\<open>compare_implementations\<close>. The early return on an empty data set writes
  neither the means nor the winner. The division by \<^verbatim>\<open>len(data_a) + len(data_b) - 2\<close>
  raises when both data sets have one point.\<close>

record comparison =
  cmp_impl_a :: string
  cmp_impl_b :: string
  cmp_test :: string
  cmp_mean_a :: "real option"
  cmp_mean_b :: "real option"
  cmp_effect_size :: real
  cmp_significant :: bool
  cmp_performance_ratio :: real
  cmp_winner :: "string option"

definition compare_implementations ::
  "float_ops \<Rightarrow> real list \<Rightarrow> real list \<Rightarrow> string \<Rightarrow> string \<Rightarrow> string
     \<Rightarrow> py_error + comparison" where
  "compare_implementations fl data_a data_b impl_a impl_b test_key =
     (if data_a = [] \<or> data_b = []
      then Inr \<lparr>cmp_impl_a = impl_a, cmp_impl_b = impl_b, cmp_test = test_key,
                cmp_mean_a = None, cmp_mean_b = None, cmp_effect_size = 0,
                cmp_significant = False, cmp_performance_ratio = 1, cmp_winner = None\<rparr>
      else
        (let mean_a = fl_div fl (fl_sum fl data_a) (real (length data_a));
             mean_b = fl_div fl (fl_sum fl data_b) (real (length data_b))
         in if int (length data_a) + int (length data_b) - 2 = 0 then Inl ZeroDivisionError
            else
              (let pooled_std =
                     fl_root fl
                       (fl_div fl
                          (fl_add fl
                             (fl_sum fl (map (\<lambda>x. fl_square fl (fl_sub fl x mean_a)) data_a))
                             (fl_sum fl (map (\<lambda>x. fl_square fl (fl_sub fl x mean_b)) data_b)))
                          (real_of_int (int (length data_a) + int (length data_b) - 2)));
                   effect_size =
                     (if pooled_std > 0 then fl_div fl (fl_sub fl mean_a mean_b) pooled_std
                      else 0);
                   significant = (\<bar>effect_size\<bar> > 0.5);
                   performance_ratio = (if mean_a > 0 then fl_div fl mean_b mean_a else 1)
               in Inr \<lparr>cmp_impl_a = impl_a, cmp_impl_b = impl_b, cmp_test = test_key,
                       cmp_mean_a = Some mean_a, cmp_mean_b = Some mean_b,
                       cmp_effect_size = effect_size, cmp_significant = significant,
                       cmp_performance_ratio = performance_ratio,
                       cmp_winner = Some (if mean_a < mean_b then impl_a else impl_b)\<rparr>)))"

text \<open>\<^verbatim>\<open>perform_statistical_analysis\<close>. The results are a dict from implementation id
  to the list of its ExecutionResults. First loop: the grouping by test key; a later
  result of the same test key and implementation overwrites the earlier timings.\<close>

type_synonym 'v results = "(string \<times> 'v exec_result list) list"

type_synonym grouped = "(string \<times> (string \<times> real list) list) list"

definition group_result :: "string \<Rightarrow> 'v exec_result \<Rightarrow> grouped \<Rightarrow> grouped" where
  "group_result impl result grouped_results =
     (if \<not> er_success result then grouped_results
      else
        (let test_key = er_category result @ ''_'' @ er_test_name result;
             test_data = (case map_of grouped_results test_key of None \<Rightarrow> [] | Some d \<Rightarrow> d)
         in AList.update test_key
              (AList.update impl (er_timing_results result) test_data) grouped_results))"

definition group_results :: "'v results \<Rightarrow> grouped" where
  "group_results results =
     fold (\<lambda>(impl, impl_results) grouped_results.
             fold (group_result impl) impl_results grouped_results) results []"

text \<open>Second loop, first part: the descriptive statistics of one test.\<close>

definition describe_test ::
  "string \<Rightarrow> (string \<times> real list) list \<Rightarrow> (string \<times> descriptive_stats option) list
     \<Rightarrow> (string \<times> descriptive_stats option) list" where
  "describe_test test_key test_data stats =
     fold (\<lambda>(impl, timings) acc.
             if timings \<noteq> []
             then AList.update (test_key @ ''_'' @ impl) (calculate_descriptive_stats timings) acc
             else acc) test_data stats"

text \<open>Second loop, second part: every pair \<open>i < j\<close> of the implementations of one test,
  in the order of the two nested \<^verbatim>\<open>range\<close> loops. The keys of a dict are distinct, so
  \<^verbatim>\<open>test_data[impl_a]\<close> is the entry's own timing list.\<close>

fun compare_with ::
  "float_ops \<Rightarrow> string \<Rightarrow> string \<times> real list \<Rightarrow> (string \<times> real list) list
     \<Rightarrow> comparison list \<Rightarrow> py_error + comparison list" where
  "compare_with fl test_key a [] acc = Inr acc"
| "compare_with fl test_key a (b # bs) acc =
     (case compare_implementations fl (snd a) (snd b) (fst a) (fst b) test_key of
        Inl e \<Rightarrow> Inl e
      | Inr c \<Rightarrow> compare_with fl test_key a bs (acc @ [c]))"

fun compare_all ::
  "float_ops \<Rightarrow> string \<Rightarrow> (string \<times> real list) list \<Rightarrow> comparison list
     \<Rightarrow> py_error + comparison list" where
  "compare_all fl test_key [] acc = Inr acc"
| "compare_all fl test_key (a # rest) acc =
     (case compare_with fl test_key a rest acc of
        Inl e \<Rightarrow> Inl e
      | Inr acc' \<Rightarrow> compare_all fl test_key rest acc')"

text \<open>The keys \<^verbatim>\<open>effect_sizes\<close> and \<^verbatim>\<open>outliers\<close> of the result stay empty dicts
  and are left out.\<close>

record statistical_results =
  sr_descriptive_stats :: "(string \<times> descriptive_stats option) list"
  sr_pairwise_comparisons :: "comparison list"

fun analyse_tests ::
  "float_ops \<Rightarrow> grouped \<Rightarrow> statistical_results \<Rightarrow> py_error + statistical_results" where
  "analyse_tests fl [] sr = Inr sr"
| "analyse_tests fl ((test_key, test_data) # rest) sr =
     (let stats = describe_test test_key test_data (sr_descriptive_stats sr)
      in case compare_all fl test_key test_data (sr_pairwise_comparisons sr) of
           Inl e \<Rightarrow> Inl e
         | Inr comparisons \<Rightarrow>
             analyse_tests fl rest
               \<lparr>sr_descriptive_stats = stats, sr_pairwise_comparisons = comparisons\<rparr>)"

definition perform_statistical_analysis ::
  "float_ops \<Rightarrow> 'v results \<Rightarrow> py_error + statistical_results" where
  "perform_statistical_analysis fl results =
     analyse_tests fl (group_results results)
       \<lparr>sr_descriptive_stats = [], sr_pairwise_comparisons = []\<rparr>"

subsection \<open>Statistics of the result processor\<close>

text \<open>\<^verbatim>\<open>BenchmarkProcessor.generate_statistics\<close> of \<^verbatim>\<open>scripts/process_results.py\<close>.
  A raw result carries an optional duration, user time and peak memory. The functions of
  Python's \<^verbatim>\<open>statistics\<close> module are written out; they are called only where they do
  not raise (\<^verbatim>\<open>mean\<close> and \<^verbatim>\<open>median\<close> on data, \<^verbatim>\<open>stdev\<close> on two points or
  more, \<^verbatim>\<open>quantiles\<close> on four points or more).\<close>

record raw_result =
  rr_duration :: "real option"
  rr_user_time :: "real option"
  rr_max_memory_kb :: "real option"

definition py_mean :: "real list \<Rightarrow> real" where
  "py_mean xs = sum_list xs / real (length xs)"

definition py_median :: "real list \<Rightarrow> real" where
  "py_median xs =
     (let s = sort xs; n = length s
      in if n mod 2 = 1 then s ! (n div 2) else (s ! (n div 2 - 1) + s ! (n div 2)) / 2)"

definition py_stdev :: "real list \<Rightarrow> real" where
  "py_stdev xs =
     sqrt (sum_list (map (\<lambda>x. (x - py_mean xs)\<^sup>2) xs) / real (length xs - 1))"

text \<open>\<^verbatim>\<open>statistics.quantiles(data, n=n)\<close>, the default exclusive method: the \<open>n - 1\<close>
  cut points, each interpolated between two neighbours of the sorted data.\<close>

definition py_quantiles :: "real list \<Rightarrow> nat \<Rightarrow> real list" where
  "py_quantiles xs n =
     (let data = sort xs; ld = length data; m = ld + 1
      in map (\<lambda>i.
                let j0 = i * m div n;
                    j = (if j0 < 1 then 1 else if j0 > ld - 1 then ld - 1 else j0);
                    delta = int (i * m) - int (j * n)
                in (data ! (j - 1) * real_of_int (int n - delta) + data ! j * real_of_int delta)
                   / real n)
             [1..<n])"

text \<open>The statistics of one implementation on one test; a key that is not written is
  \<open>None\<close>.\<close>

record impl_stats =
  st_count :: nat
  st_duration_mean :: real
  st_duration_median :: real
  st_duration_stdev :: real
  st_duration_min :: real
  st_duration_max :: real
  st_duration_p25 :: "real option"
  st_duration_p75 :: "real option"
  st_duration_p90 :: "real option"
  st_duration_p95 :: "real option"
  st_duration_p99 :: "real option"
  st_user_time_mean :: "real option"
  st_user_time_median :: "real option"
  st_user_time_stdev :: "real option"
  st_memory_mean_kb :: "real option"
  st_memory_median_kb :: "real option"
  st_memory_max_kb :: "real option"
  st_memory_min_kb :: "real option"

text \<open>The body of the inner loop; \<open>None\<close> is a \<^verbatim>\<open>continue\<close>.\<close>

definition implementation_statistics :: "raw_result list \<Rightarrow> impl_stats option" where
  "implementation_statistics impl_results =
     (if impl_results = [] then None
      else
        (let durations = List.map_filter rr_duration impl_results;
             user_times = List.map_filter rr_user_time impl_results;
             memory_usage = List.map_filter rr_max_memory_kb impl_results
         in if durations = [] then None
            else Some
              \<lparr>st_count = length durations,
               st_duration_mean = py_mean durations,
               st_duration_median = py_median durations,
               st_duration_stdev = (if length durations > 1 then py_stdev durations else 0),
               st_duration_min = Min (set durations),
               st_duration_max = Max (set durations),
               st_duration_p25 =
                 (if length durations \<ge> 4 then Some (py_quantiles durations 4 ! 0) else None),
               st_duration_p75 =
                 (if length durations \<ge> 4 then Some (py_quantiles durations 4 ! 2) else None),
               st_duration_p90 =
                 (if length durations \<ge> 10 then Some (py_quantiles durations 10 ! 8) else None),
               st_duration_p95 =
                 (if length durations \<ge> 10 then Some (py_quantiles durations 20 ! 18) else None),
               st_duration_p99 =
                 (if length durations \<ge> 10 then Some (py_quantiles durations 100 ! 98) else None),
               st_user_time_mean =
                 (if user_times \<noteq> [] then Some (py_mean user_times) else None),
               st_user_time_median =
                 (if user_times \<noteq> [] then Some (py_median user_times) else None),
               st_user_time_stdev =
                 (if user_times \<noteq> []
                  then Some (if length user_times > 1 then py_stdev user_times else 0)
                  else None),
               st_memory_mean_kb =
                 (if memory_usage \<noteq> [] then Some (py_mean memory_usage) else None),
               st_memory_median_kb =
                 (if memory_usage \<noteq> [] then Some (py_median memory_usage) else None),
               st_memory_max_kb =
                 (if memory_usage \<noteq> [] then Some (Max (set memory_usage)) else None),
               st_memory_min_kb =
                 (if memory_usage \<noteq> [] then Some (Min (set memory_usage)) else None)\<rparr>))"

definition test_statistics ::
  "(string \<times> raw_result list) list \<Rightarrow> (string \<times> impl_stats) list" where
  "test_statistics test_results =
     fold (\<lambda>(impl, impl_results) acc.
             case implementation_statistics impl_results of
               None \<Rightarrow> acc
             | Some s \<Rightarrow> AList.update impl s acc) test_results []"

definition generate_statistics ::
  "(string \<times> (string \<times> raw_result list) list) list
     \<Rightarrow> (string \<times> (string \<times> impl_stats) list) list" where
  "generate_statistics organized_results =
     fold (\<lambda>(test, test_results) stats.
             AList.update test (test_statistics test_results) stats) organized_results []"

subsection \<open>Regression Detector\<close>

text \<open>\<^verbatim>\<open>detect_regressions\<close>. Python compares two dicts as mappings, whatever the
  order of their keys.\<close>

definition dict_eq :: "('k \<times> 'v) list \<Rightarrow> ('k \<times> 'v) list \<Rightarrow> bool" where
  "dict_eq a b = list_all (\<lambda>k. map_of a k = map_of b k) (map fst a @ map fst b)"

record regression =
  rg_implementation :: string
  rg_test :: string
  rg_category :: string
  rg_degradation_percent :: real
  rg_current_performance :: real
  rg_baseline_performance :: real

record improvement =
  im_implementation :: string
  im_test :: string
  im_category :: string
  im_improvement_percent :: real
  im_current_performance :: real
  im_baseline_performance :: real

record regression_analysis =
  ra_regressions :: "regression list"
  ra_improvements :: "improvement list"
  ra_baseline_file :: string

text \<open>The search for the matching baseline test: the first entry with the same test
  name, category and parameters.\<close>

fun find_baseline_test :: "'v exec_result \<Rightarrow> 'v exec_result list \<Rightarrow> 'v exec_result option" where
  "find_baseline_test result [] = None"
| "find_baseline_test result (baseline_result # rest) =
     (if er_test_name baseline_result = er_test_name result \<and>
         er_category baseline_result = er_category result \<and>
         dict_eq (er_parameters baseline_result) (er_parameters result)
      then Some baseline_result
      else find_baseline_test result rest)"

text \<open>\<^verbatim>\<open>.get('ops_per_second', 0)\<close>.\<close>

definition ops_or_zero :: "'v exec_result \<Rightarrow> real" where
  "ops_or_zero r = (case er_ops_per_second r of None \<Rightarrow> 0 | Some x \<Rightarrow> x)"

text \<open>The body of the loop over the results of one implementation; its state is the
  two lists.\<close>

definition check_result ::
  "float_ops \<Rightarrow> string \<Rightarrow> 'v exec_result list \<Rightarrow> 'v exec_result
     \<Rightarrow> regression list \<times> improvement list \<Rightarrow> regression list \<times> improvement list" where
  "check_result fl impl baseline_impl result acc =
     (case acc of (regressions, improvements) \<Rightarrow>
        if \<not> er_success result then acc
        else
          (case find_baseline_test result baseline_impl of
             None \<Rightarrow> acc
           | Some baseline_test \<Rightarrow>
               (let current_perf = ops_or_zero result;
                    baseline_perf = ops_or_zero baseline_test
                in if baseline_perf > 0
                   then
                     (let change_percent =
                            fl_mul fl
                              (fl_div fl (fl_sub fl current_perf baseline_perf) baseline_perf) 100
                      in if change_percent < - 5
                         then (regressions @
                                 [\<lparr>rg_implementation = impl, rg_test = er_test_name result,
                                   rg_category = er_category result,
                                   rg_degradation_percent = \<bar>change_percent\<bar>,
                                   rg_current_performance = current_perf,
                                   rg_baseline_performance = baseline_perf\<rparr>],
                               improvements)
                         else if change_percent > 5
                         then (regressions,
                               improvements @
                                 [\<lparr>im_implementation = impl, im_test = er_test_name result,
                                   im_category = er_category result,
                                   im_improvement_percent = change_percent,
                                   im_current_performance = current_perf,
                                   im_baseline_performance = baseline_perf\<rparr>])
                         else acc)
                   else acc)))"

text \<open>The outer loop. An implementation the baseline does not have is skipped.\<close>

definition check_results ::
  "float_ops \<Rightarrow> 'v results \<Rightarrow> 'v results \<Rightarrow> regression list \<times> improvement list" where
  "check_results fl baseline_results results =
     fold (\<lambda>(impl, impl_results) acc.
             case map_of baseline_results impl of
               None \<Rightarrow> acc
             | Some baseline_impl \<Rightarrow>
                 fold (check_result fl impl baseline_impl) impl_results acc)
          results ([], [])"

text \<open>\<open>regression_baseline\<close> is the command line's baseline file, if any;
  \<open>load_baseline\<close> is reading it, \<open>None\<close> when \<^verbatim>\<open>open\<close> or \<^verbatim>\<open>json.load\<close> raises.
  The result \<open>None\<close> is the empty dict.\<close>

definition detect_regressions ::
  "float_ops \<Rightarrow> string option \<Rightarrow> (string \<Rightarrow> 'v results option) \<Rightarrow> 'v results
     \<Rightarrow> regression_analysis option" where
  "detect_regressions fl regression_baseline load_baseline results =
     (case regression_baseline of
        None \<Rightarrow> None
      | Some file \<Rightarrow>
          if file = [] then None
          else
            (case load_baseline file of
               None \<Rightarrow> None
             | Some baseline_results \<Rightarrow>
                 (case check_results fl baseline_results results of
                    (regressions, improvements) \<Rightarrow>
                      Some \<lparr>ra_regressions = regressions, ra_improvements = improvements,
                            ra_baseline_file = file\<rparr>)))"

subsection \<open>Reference definitions and example inputs\<close>

text \<open>The loop over the parameters alone; the guard on an empty schema in
  \<^const>\<open>generate_parameter_combinations\<close> returns what this loop returns on it.\<close>

definition expand_all :: "'v param list \<Rightarrow> 'v combo list" where
  "expand_all ps = fold expand_param ps [[]]"

text \<open>The order the specification words: lexicographic, the first declared parameter
  the slowest. Written from the specification, to compare the code with.\<close>

fun lexicographic_combinations :: "'v param list \<Rightarrow> 'v combo list" where
  "lexicographic_combinations [] = [[]]"
| "lexicographic_combinations (p # ps) =
     concat (map (\<lambda>vd. map (\<lambda>c. (param_name p, value_value vd) # c)
                          (lexicographic_combinations ps)) (param_values p))"

text \<open>The number of declared values of a parameter, and the weight of parameter \<open>j\<close>:
  the product of the numbers of values of the parameters declared before it.\<close>

definition value_count :: "'v param \<Rightarrow> nat" where
  "value_count p = length (param_values p)"

definition weight :: "'v param list \<Rightarrow> nat \<Rightarrow> nat" where
  "weight ps j = prod_list (map value_count (take j ps))"

text \<open>Two parameters \<open>a\<close> and \<open>b\<close> with two integer values each.\<close>

definition schema_ab :: "int param list" where
  "schema_ab =
     [\<lparr>param_name = ''a'', param_values =
         [\<lparr>value_type = ''Integer'', value_value = 1\<rparr>,
          \<lparr>value_type = ''Integer'', value_value = 2\<rparr>]\<rparr>,
      \<lparr>param_name = ''b'', param_values =
         [\<lparr>value_type = ''Integer'', value_value = 3\<rparr>,
          \<lparr>value_type = ''Integer'', value_value = 4\<rparr>]\<rparr>]"

text \<open>One parameter that declares the same value twice.\<close>

definition schema_twice :: "int param list" where
  "schema_twice =
     [\<lparr>param_name = ''n'', param_values =
         [\<lparr>value_type = ''Integer'', value_value = 1\<rparr>,
          \<lparr>value_type = ''Integer'', value_value = 1\<rparr>]\<rparr>]"

text \<open>A parameter with one value of a type the expander does not know, after a
  parameter with two good values.\<close>

definition schema_unknown :: "int param list" where
  "schema_unknown =
     [\<lparr>param_name = ''a'', param_values =
         [\<lparr>value_type = ''Integer'', value_value = 1\<rparr>,
          \<lparr>value_type = ''Integer'', value_value = 2\<rparr>]\<rparr>,
      \<lparr>param_name = ''b'', param_values =
         [\<lparr>value_type = ''Symbol'', value_value = 3\<rparr>]\<rparr>]"

text \<open>The mean of a data set in the arithmetic \<open>fl\<close>: \<^verbatim>\<open>sum(data) / len(data)\<close>.\<close>

definition sample_mean :: "float_ops \<Rightarrow> real list \<Rightarrow> real" where
  "sample_mean fl xs = fl_div fl (fl_sum fl xs) (real (length xs))"









text \<open>The results without the failed ones.\<close>

definition drop_failed :: "'v results \<Rightarrow> 'v results" where
  "drop_failed results =
     map (\<lambda>(impl, impl_results). (impl, filter er_success impl_results)) results"

text \<open>Timed iteration \<open>i\<close> of a run (counted from 0, after the warmups): whether it
  succeeds (the run gets as far as its iterations, and the process of this one
  succeeds), and the seconds measured for it.\<close>

definition timed_success :: "host \<Rightarrow> implementation \<Rightarrow> statistical_config \<Rightarrow> nat \<Rightarrow> bool" where
  "timed_success h impl config i =
     (write_ok h \<and>
      fst (execute_test_file h impl (temp_stem h @ file_extension impl)
             (nat (warmup_iterations config) + i)))"

definition timed_seconds :: "host \<Rightarrow> statistical_config \<Rightarrow> nat \<Rightarrow> real" where
  "timed_seconds h config i = wall_clock h (nat (warmup_iterations config) + i)"

text \<open>An implementation, a test, a configuration of one warmup and three iterations,
  and a host on which the warmup and the first timed iteration succeed in half a second
  each and every later process exits with code 1.\<close>

definition chez :: implementation where
  "chez = \<lparr>impl_id = ''chez'', impl_name = ''Chez Scheme'',
     impl_runtime = \<lparr>target_dir = [], profile = [], binary_path = ''scheme'',
       args = [''--script'']\<rparr>\<rparr>"

definition fib_test :: "int test_def" where
  "fib_test = \<lparr>test_name = ''fib'', code_template = ''(fib {n})'', test_parameters = []\<rparr>"

definition three_runs :: statistical_config where
  "three_runs = \<lparr>iterations = 3, warmup_iterations = 1\<rparr>"

definition host_fail_third :: host where
  "host_fail_third =
     \<lparr>spawn = (\<lambda>cmd k. if k \<le> 1 then Completed 0 [] [] else Completed 1 [] ''boom''),
      wall_clock = (\<lambda>k. 1 / 2), temp_stem = ''/tmp/tmpk3v9'', write_ok = True\<rparr>"

text \<open>A host on which the source text cannot be written into the temporary file.\<close>

definition host_write_fails :: host where
  "host_write_fails =
     \<lparr>spawn = (\<lambda>cmd k. Completed 0 [] []), wall_clock = (\<lambda>k. 1 / 2),
      temp_stem = ''/tmp/tmpk3v9'', write_ok = False\<rparr>"

text \<open>A successful result of the test \<open>fib\<close> with the given operations per second, and
  a baseline file that holds one such result at 100 operations per second.\<close>

definition measured :: "real \<Rightarrow> int exec_result" where
  "measured ops =
     \<lparr>er_implementation = ''chez'', er_test_name = ''fib'', er_category = ''recursion'',
      er_parameters = [(''n'', 10)], er_success = True,
      er_mean_time_seconds = Some (1 / ops), er_ops_per_second = Some ops,
      er_timing_results = [1 / ops], er_iterations = Some 1, er_error = None\<rparr>"





section \<open>Properties\<close>

lemma extract_value_supported:
  "supported_type (value_type vd) \<Longrightarrow> extract_value vd = Some (value_value vd)"
  by (auto simp: extract_value_def supported_type_def)

lemma extract_value_unsupported:
  "\<not> supported_type (value_type vd) \<Longrightarrow> extract_value vd = None"
  by (auto simp: extract_value_def supported_type_def)

subsection \<open>Parameter Expander: the loops as a product\<close>

lemma generate_expand_all: "generate_parameter_combinations ps = expand_all ps"
  by (simp add: generate_parameter_combinations_def expand_all_def)

lemma fold_add_combo:
  "fold (add_combo n vd) cs acc =
     acc @ (case extract_value vd of None \<Rightarrow> [] | Some v \<Rightarrow> map (AList.update n v) cs)"
  by (induction cs arbitrary: acc) (auto simp: add_combo_def split: option.splits)

lemma fold_append_blocks:
  "fold (\<lambda>x acc. acc @ f x) xs acc = acc @ concat (map f xs)"
  by (induction xs arbitrary: acc) auto

lemma expand_param_concat:
  "expand_param p cs =
     concat (map (\<lambda>vd. case extract_value vd of None \<Rightarrow> []
                        | Some v \<Rightarrow> map (AList.update (param_name p) v) cs) (param_values p))"
  unfolding expand_param_def fold_add_combo by (simp add: fold_append_blocks)

lemma concat_map_product:
  "concat (map (\<lambda>x. map (f x) ys) xs) = map (\<lambda>(x, y). f x y) (List.product xs ys)"
  by (induction xs) auto

lemma expand_param_product:
  assumes "list_all (\<lambda>vd. supported_type (value_type vd)) (param_values p)"
  shows "expand_param p cs =
     map (\<lambda>(v, c). AList.update (param_name p) v c)
       (List.product (map value_value (param_values p)) cs)"
proof -
  have "map (\<lambda>vd. case extract_value vd of None \<Rightarrow> []
                        | Some v \<Rightarrow> map (AList.update (param_name p) v) cs) (param_values p)
      = map (\<lambda>v. map (AList.update (param_name p) v) cs) (map value_value (param_values p))"
    using assms by (auto simp: list_all_iff extract_value_supported)
  then show ?thesis
    by (simp only: expand_param_concat concat_map_product)
qed

lemma expand_all_snoc: "expand_all (ps @ [p]) = expand_param p (expand_all ps)"
  by (simp add: expand_all_def)

lemma expand_param_Nil: "expand_param p [] = []"
  by (simp add: expand_param_concat split: option.splits)

lemma expand_param_no_values:
  "list_all (\<lambda>vd. \<not> supported_type (value_type vd)) (param_values p) \<Longrightarrow> expand_param p cs = []"
  by (auto simp: expand_param_concat list_all_iff extract_value_unsupported)

lemma fold_expand_param_Nil: "fold expand_param ps [] = []"
  by (induction ps) (auto simp: expand_param_Nil)

lemma length_expand_param:
  "list_all (\<lambda>vd. supported_type (value_type vd)) (param_values p) \<Longrightarrow>
   length (expand_param p cs) = length (param_values p) * length cs"
  by (simp add: expand_param_product)

lemma length_expand_all:
  "all_supported ps \<Longrightarrow>
   length (expand_all ps) = prod_list (map (\<lambda>p. length (param_values p)) ps)"
  by (induction ps rule: rev_induct)
     (auto simp: expand_all_snoc length_expand_param all_supported_def expand_all_def)


lemma map_of_update_inj:
  assumes "m1 n = None" "m2 n = None" "m1(n \<mapsto> v1) = m2(n \<mapsto> v2)"
  shows "v1 = v2 \<and> m1 = m2"
proof
  from assms(3) have "(m1(n \<mapsto> v1)) n = (m2(n \<mapsto> v2)) n" by simp
  then show "v1 = v2" by simp
  show "m1 = m2"
  proof
    fix k
    show "m1 k = m2 k"
    proof (cases "k = n")
      case True then show ?thesis using assms(1,2) by simp
    next
      case False
      from assms(3) have "(m1(n \<mapsto> v1)) k = (m2(n \<mapsto> v2)) k" by simp
      with False show ?thesis by simp
    qed
  qed
qed

lemma keys_expand_param:
  assumes "c' \<in> set (expand_param p cs)"
  shows "\<exists>c\<in>set cs. fst ` set c' = insert (param_name p) (fst ` set c)"
proof -
  from assms obtain vd v c where "c \<in> set cs" "c' = AList.update (param_name p) v c"
    by (auto simp: expand_param_concat split: option.splits)
  then show ?thesis
    by (intro bexI [of _ c]) (simp_all add: dom_update)
qed

lemma keys_expand_all:
  "c \<in> set (expand_all ps) \<Longrightarrow> fst ` set c = param_name ` set ps"
proof (induction ps arbitrary: c rule: rev_induct)
  case Nil
  then show ?case by (simp add: expand_all_def)
next
  case (snoc p ps)
  from snoc.prems obtain c0 where c0: "c0 \<in> set (expand_all ps)"
    and k: "fst ` set c = insert (param_name p) (fst ` set c0)"
    unfolding expand_all_snoc by (blast dest: keys_expand_param)
  from snoc.IH [OF c0] k show ?case by simp
qed

lemma distinct_expand_param:
  assumes sup: "list_all (\<lambda>vd. supported_type (value_type vd)) (param_values p)"
    and dv: "distinct (map value_value (param_values p))"
    and dc: "distinct (map map_of cs)"
    and fresh: "\<forall>c\<in>set cs. param_name p \<notin> fst ` set c"
  shows "distinct (map map_of (expand_param p cs))"
proof -
  let ?n = "param_name p"
  let ?g = "\<lambda>(v, c). (map_of c)(?n \<mapsto> v)"
  have eq: "map map_of (expand_param p cs) =
      map ?g (List.product (map value_value (param_values p)) cs)"
    by (simp add: expand_param_product [OF sup] update_conv' case_prod_unfold comp_def)
  have dcs: "distinct cs" using dc by (simp add: distinct_map)
  have inj: "inj_on ?g (set (map value_value (param_values p)) \<times> set cs)"
  proof (rule inj_onI, clarify)
    fix v1 c1 v2 c2
    assume c1: "c1 \<in> set cs" and c2: "c2 \<in> set cs"
      and e: "(map_of c1)(?n \<mapsto> v1) = (map_of c2)(?n \<mapsto> v2)"
    have "map_of c1 ?n = None" "map_of c2 ?n = None"
      using fresh c1 c2 by (auto simp: map_of_eq_None_iff)
    from map_of_update_inj [OF this e] have "v1 = v2" "map_of c1 = map_of c2" by auto
    moreover from dc c1 c2 \<open>map_of c1 = map_of c2\<close> have "c1 = c2"
      by (auto simp: distinct_map dest: inj_onD)
    ultimately show "v1 = v2 \<and> c1 = c2" by simp
  qed
  show ?thesis
    unfolding eq using dv dcs inj by (simp add: distinct_map distinct_product)
qed

lemma distinct_expand_all:
  assumes "all_supported ps" "distinct (map param_name ps)"
    "list_all (\<lambda>p. distinct (map value_value (param_values p))) ps"
  shows "distinct (map map_of (expand_all ps))"
  using assms
proof (induction ps rule: rev_induct)
  case Nil
  then show ?case by (simp add: expand_all_def)
next
  case (snoc p ps)
  then have ih: "distinct (map map_of (expand_all ps))"
    by (simp add: all_supported_def)
  have fresh: "\<forall>c\<in>set (expand_all ps). param_name p \<notin> fst ` set c"
    using snoc.prems(2) by (auto simp: keys_expand_all)
  show ?case
    unfolding expand_all_snoc
    using snoc.prems ih fresh
    by (intro distinct_expand_param) (auto simp: all_supported_def)
qed


lemma digit_mod:
  fixes i :: nat
  shows "(i mod (W * n * R)) div W mod n = i div W mod n"
proof (cases "W = 0")
  case True
  then show ?thesis by simp
next
  case False
  have "i mod (W * (n * R)) = W * (i div W mod (n * R)) + i mod W"
    by (rule mod_mult2_eq)
  then have "i mod (W * n * R) div W = i div W mod (n * R)"
    using False by (simp add: mult.assoc)
  then show ?thesis
    by (simp add: mod_mod_cancel)
qed

lemma nth_expand_param:
  assumes sup: "list_all (\<lambda>vd. supported_type (value_type vd)) (param_values p)"
    and i: "i < length (param_values p) * length cs"
  shows "expand_param p cs ! i =
     AList.update (param_name p) (value_value (param_values p ! (i div length cs)))
       (cs ! (i mod length cs))"
proof -
  have cs: "0 < length cs" using i by (cases cs) auto
  have d: "i div length cs < length (param_values p)"
    using i cs by (simp add: less_mult_imp_div_less)
  show ?thesis
    using i d by (simp add: expand_param_product [OF sup] product_nth)
qed

lemma combination_order_aux:
  assumes "all_supported ps" "distinct (map param_name ps)"
    "i < length (expand_all ps)" "j < length ps"
  shows "map_of (expand_all ps ! i) (param_name (ps ! j)) =
     Some (value_value (param_values (ps ! j) !
       ((i div weight ps j) mod value_count (ps ! j))))"
  using assms unfolding weight_def value_count_def
proof (induction ps arbitrary: i j rule: rev_induct)
  case Nil
  then show ?case by simp
next
  case (snoc p ps)
  let ?n = "\<lambda>p. length (param_values p)"
  let ?M = "length (expand_all ps)"
  have sup_ps: "all_supported ps"
    and sup_p: "list_all (\<lambda>vd. supported_type (value_type vd)) (param_values p)"
    using snoc.prems(1) by (simp_all add: all_supported_def)
  have M: "?M = prod_list (map ?n ps)" by (rule length_expand_all [OF sup_ps])
  have i: "i < ?n p * ?M"
    using snoc.prems(3) by (simp add: expand_all_snoc length_expand_param [OF sup_p])
  then have Mpos: "0 < ?M" by (cases "?M") auto
  have nth: "expand_all (ps @ [p]) ! i =
      AList.update (param_name p) (value_value (param_values p ! (i div ?M)))
        (expand_all ps ! (i mod ?M))"
    unfolding expand_all_snoc by (rule nth_expand_param [OF sup_p i])
  show ?case
  proof (cases "j < length ps")
    case True
    then have "param_name (ps ! j) \<in> param_name ` set ps" by (intro imageI nth_mem)
    moreover have "param_name p \<notin> param_name ` set ps" using snoc.prems(2) by simp
    ultimately have ne: "param_name (ps ! j) \<noteq> param_name p" by metis
    have dps: "distinct (map param_name ps)" using snoc.prems(2) by simp
    have im: "i mod ?M < ?M" using Mpos by simp
    have split: "ps = take j ps @ ps ! j # drop (Suc j) ps"
      using True by (rule id_take_nth_drop)
    have "prod_list (map ?n ps) =
        prod_list (map ?n (take j ps)) * ?n (ps ! j) * prod_list (map ?n (drop (Suc j) ps))"
      by (subst split) (simp add: mult.assoc)
    then have dig: "(i mod ?M) div prod_list (map ?n (take j ps)) mod ?n (ps ! j) =
        i div prod_list (map ?n (take j ps)) mod ?n (ps ! j)"
      by (simp only: M digit_mod)
    have "map_of (expand_all (ps @ [p]) ! i) (param_name (ps ! j)) =
        map_of (expand_all ps ! (i mod ?M)) (param_name (ps ! j))"
      using ne by (simp add: nth update_conv')
    also have "\<dots> = Some (value_value (param_values (ps ! j) !
        (((i mod ?M) div prod_list (map ?n (take j ps))) mod ?n (ps ! j))))"
      by (rule snoc.IH [OF sup_ps dps im True])
    finally show ?thesis
      using True by (simp add: dig nth_append)
  next
    case False
    with snoc.prems(4) have j: "j = length ps" by simp
    have "i div ?M < ?n p" using i Mpos by (simp add: less_mult_imp_div_less)
    then show ?thesis
      by (simp add: j nth update_conv' M)
  qed
qed


lemma gen_schema_ab:
  "generate_parameter_combinations schema_ab =
     [[(''a'', 1), (''b'', 3)], [(''a'', 2), (''b'', 3)],
      [(''a'', 1), (''b'', 4)], [(''a'', 2), (''b'', 4)]]"
  by (simp add: generate_parameter_combinations_def schema_ab_def expand_param_def
      add_combo_def extract_value_def)

lemma lex_schema_ab:
  "lexicographic_combinations schema_ab =
     [[(''a'', 1), (''b'', 3)], [(''a'', 1), (''b'', 4)],
      [(''a'', 2), (''b'', 3)], [(''a'', 2), (''b'', 4)]]"
  by (simp add: schema_ab_def)

lemma all_supported_schema_ab: "all_supported schema_ab"
  by (simp add: all_supported_def schema_ab_def supported_type_def)

subsection \<open>Parameter Expander: the claims\<close>

text \<open>
  Claim C3. The specification has the combinations in lexicographic order, the first
  declared parameter varying slowest. On the schema \<open>a \<in> {1, 2}\<close>, \<open>b \<in> {3, 4}\<close> the
  code emits \<open>(1, 3), (2, 3), (1, 4), (2, 4)\<close>: the first parameter changes at every
  step, and the second combination is not the lexicographic one.
\<close>

theorem first_parameter_fastest_counterexample:
  "generate_parameter_combinations schema_ab =
     [[(''a'', 1), (''b'', 3)], [(''a'', 2), (''b'', 3)],
      [(''a'', 1), (''b'', 4)], [(''a'', 2), (''b'', 4)]] \<and>
   generate_parameter_combinations schema_ab \<noteq> lexicographic_combinations schema_ab"
  by (simp add: gen_schema_ab lex_schema_ab)

text \<open>
  Claim C3, as the code has it. For a schema whose values are all of a supported type
  and whose parameter names are pairwise distinct, combination number \<open>i\<close> gives
  parameter number \<open>j\<close> its declared value number \<open>(i div w) mod n\<close>, where \<open>n\<close> is the
  number of values of parameter \<open>j\<close> and \<open>w\<close> the product of the numbers of values of the
  parameters declared before it. So the first declared parameter varies fastest and the
  last one slowest, and the values of each parameter come in their declared order.
\<close>

theorem combination_order:
  assumes "all_supported ps" and "distinct (map param_name ps)"
    and "i < length (generate_parameter_combinations ps)" and "j < length ps"
  shows "map_of (generate_parameter_combinations ps ! i) (param_name (ps ! j)) =
     Some (value_value (param_values (ps ! j) ! ((i div weight ps j) mod value_count (ps ! j))))"
  using assms by (simp only: generate_expand_all combination_order_aux)

theorem combination_order_witness:
  "all_supported schema_ab \<and> distinct (map param_name schema_ab) \<and>
   1 < length (generate_parameter_combinations schema_ab) \<and> 0 < length schema_ab \<and>
   map_of (generate_parameter_combinations schema_ab ! 1) ''a'' = Some 2"
proof -
  have a: "all_supported schema_ab" by (rule all_supported_schema_ab)
  have d: "distinct (map param_name schema_ab)" by (simp add: schema_ab_def)
  have i: "1 < length (generate_parameter_combinations schema_ab)"
    by (simp add: gen_schema_ab)
  have j: "0 < length schema_ab" by (simp add: schema_ab_def)
  have "map_of (generate_parameter_combinations schema_ab ! 1) ''a'' = Some 2"
    using combination_order [OF a d i j]
    by (simp add: schema_ab_def weight_def value_count_def)
  with a d i j show ?thesis by simp
qed

text \<open>
  Claim C6. The specification has every combination unique whenever all declared
  values are of a supported type. A parameter that declares the same value twice gives
  the same combination twice.
\<close>

theorem combinations_repeat_counterexample:
  "all_supported schema_twice \<and>
   generate_parameter_combinations schema_twice = [[(''n'', 1)], [(''n'', 1)]] \<and>
   \<not> distinct (map map_of (generate_parameter_combinations schema_twice))"
  by (simp add: all_supported_def schema_twice_def supported_type_def
      generate_parameter_combinations_def expand_param_def add_combo_def extract_value_def)

text \<open>
  Claim C6, as the code has it. For a schema whose declared values are all of a
  supported type, the number of combinations is the product of the numbers of values of
  the parameters; when moreover the parameter names are pairwise distinct and no
  parameter declares a value twice, the combinations are pairwise different as
  mappings; and the schema with no parameter yields the empty mapping alone.
\<close>

theorem combination_count_and_uniqueness:
  fixes ps :: "'v param list"
  assumes "all_supported ps"
  shows "length (generate_parameter_combinations ps) = prod_list (map value_count ps) \<and>
    (distinct (map param_name ps) \<and>
       list_all (\<lambda>p. distinct (map value_value (param_values p))) ps \<longrightarrow>
     distinct (map map_of (generate_parameter_combinations ps))) \<and>
    generate_parameter_combinations ([] :: 'v param list) = [[]]"
proof (intro conjI impI)
  show "length (generate_parameter_combinations ps) = prod_list (map value_count ps)"
    using length_expand_all [OF assms]
    by (simp add: generate_expand_all value_count_def [abs_def])
next
  assume "distinct (map param_name ps) \<and>
    list_all (\<lambda>p. distinct (map value_value (param_values p))) ps"
  then show "distinct (map map_of (generate_parameter_combinations ps))"
    using distinct_expand_all [OF assms] by (simp add: generate_expand_all)
next
  show "generate_parameter_combinations ([] :: 'v param list) = [[]]"
    by (simp add: generate_parameter_combinations_def)
qed

theorem combination_count_and_uniqueness_witness:
  "all_supported schema_ab \<and>
   distinct (map param_name schema_ab) \<and>
   list_all (\<lambda>p. distinct (map value_value (param_values p))) schema_ab \<and>
   length (generate_parameter_combinations schema_ab) = 4 \<and>
   distinct (map map_of (generate_parameter_combinations schema_ab))"
proof -
  have a: "all_supported schema_ab" by (rule all_supported_schema_ab)
  have d: "distinct (map param_name schema_ab)" by (simp add: schema_ab_def)
  have v: "list_all (\<lambda>p. distinct (map value_value (param_values p))) schema_ab"
    by (simp add: schema_ab_def)
  have n: "prod_list (map value_count schema_ab) = 4"
    by (simp add: schema_ab_def value_count_def)
  from combination_count_and_uniqueness [OF a] d v n a show ?thesis by simp
qed

text \<open>
  Claim C10. A schema with a parameter whose value list is empty, or whose values are
  all of an unsupported type, has no combination at all: the expander returns the empty
  list, whatever the other parameters declare.
\<close>

theorem no_combination_without_usable_value:
  assumes "p \<in> set ps"
    and "param_values p = [] \<or>
         list_all (\<lambda>vd. \<not> supported_type (value_type vd)) (param_values p)"
  shows "generate_parameter_combinations ps = []"
proof -
  from assms(2) have none: "list_all (\<lambda>vd. \<not> supported_type (value_type vd)) (param_values p)"
    by auto
  from assms(1) obtain xs ys where ps: "ps = xs @ p # ys"
    by (auto simp: in_set_conv_decomp)
  have "fold expand_param ps [[]] = fold expand_param ys (expand_param p (fold expand_param xs [[]]))"
    by (simp add: ps)
  also have "\<dots> = []"
    by (simp add: expand_param_no_values [OF none] fold_expand_param_Nil)
  finally show ?thesis
    using assms(1) by (auto simp: generate_parameter_combinations_def)
qed

theorem no_combination_without_usable_value_witness:
  "schema_unknown ! 1 \<in> set schema_unknown \<and>
   list_all (\<lambda>vd. \<not> supported_type (value_type vd)) (param_values (schema_unknown ! 1)) \<and>
   generate_parameter_combinations schema_unknown = []"
proof -
  have m: "schema_unknown ! 1 \<in> set schema_unknown" by (simp add: schema_unknown_def)
  have u: "list_all (\<lambda>vd. \<not> supported_type (value_type vd)) (param_values (schema_unknown ! 1))"
    by (simp add: schema_unknown_def supported_type_def)
  from no_combination_without_usable_value [OF m disjI2 [OF u]] m u show ?thesis by simp
qed

subsection \<open>Execution Sandbox\<close>

lemma measurement_runs_stop:
  assumes "\<forall>i<m. fst (execute_test_file h impl f (k + i))"
    and "\<not> fst (execute_test_file h impl f (k + m))"
    and "m < n"
  shows "fst (measurement_runs h impl f n k ts err) = ts @ map (\<lambda>i. wall_clock h (k + i)) [0..<m]"
  using assms
proof (induction m arbitrary: n k ts err)
  case 0
  then obtain n' where "n = Suc n'" by (cases n) auto
  with 0 show ?case by (cases "execute_test_file h impl f k") simp
next
  case (Suc m)
  then obtain n' where n: "n = Suc n'" and m: "m < n'" by (cases n) auto
  have s0: "fst (execute_test_file h impl f k)" using Suc.prems(1) [rule_format, of 0] by simp
  have all: "\<forall>i<m. fst (execute_test_file h impl f (Suc k + i))"
    using Suc.prems(1) by (metis Suc_less_eq add_Suc_right add_Suc)
  have fail: "\<not> fst (execute_test_file h impl f (Suc k + m))" using Suc.prems(2) by simp
  have "map (\<lambda>i. wall_clock h (k + i)) [0..<Suc m] =
      wall_clock h k # map (\<lambda>i. wall_clock h (Suc k + i)) [0..<m]"
    by (simp add: upt_conv_Cons map_Suc_upt [symmetric] del: upt_Suc)
  then show ?case
    using s0 Suc.IH [OF all fail m] by (cases "execute_test_file h impl f k") (simp add: n)
qed

lemma substitute_fib: "substitute_parameters (\<lambda>v. ''10'') ''(fib {n})'' [(''n'', 10 :: int)] = ''(fib 10)''"
  by (simp add: substitute_parameters_def)

text \<open>
  Claim C2. The specification has a run whose timed iteration fails after a successful
  one marked as failed. On a host where the first timed iteration succeeds and the
  second fails, the code returns a result with \<^verbatim>\<open>success\<close> true that carries the one
  timing collected.
\<close>

theorem partial_run_counterexample:
  "snd (run_single_test host_fail_third three_runs (\<lambda>v. ''10'') Map.empty chez fib_test
          [(''n'', 10)] ''recursion'') =
     Inr \<lparr>er_implementation = ''chez'', er_test_name = ''fib'', er_category = ''recursion'',
          er_parameters = [(''n'', 10)], er_success = True,
          er_mean_time_seconds = Some (1 / 2), er_ops_per_second = Some 2,
          er_timing_results = [1 / 2], er_iterations = Some 1, er_error = None\<rparr>"
  by (simp add: run_single_test_def run_measurements_def Let_def three_runs_def
      host_fail_third_def chez_def fib_test_def execute_test_file_def eval_nat_numeral)

text \<open>
  Claim C2, as the code has it. When the timed iterations \<open>0\<close> to \<open>k - 1\<close> succeed,
  \<open>k\<close> being at least one, and iteration \<open>k\<close>, one of the configured iterations, fails,
  the run stops there: it returns an ExecutionResult marked successful whose timing
  samples are exactly the \<open>k\<close> collected before the failure, with their number as the
  iteration count and the mean time and the operations per second computed from them.
\<close>

theorem partial_run_keeps_timings:
  assumes "0 < k" and "int k < iterations config"
    and "\<forall>i<k. timed_success h impl config i"
    and "\<not> timed_success h impl config k"
  shows "snd (run_single_test h config str_of fs impl test params category) =
     Inr \<lparr>er_implementation = impl_id impl, er_test_name = test_name test,
          er_category = category, er_parameters = params, er_success = True,
          er_mean_time_seconds = Some (sum_list (map (timed_seconds h config) [0..<k]) / real k),
          er_ops_per_second =
            Some (if sum_list (map (timed_seconds h config) [0..<k]) / real k > 0
                  then 1 / (sum_list (map (timed_seconds h config) [0..<k]) / real k) else 0),
          er_timing_results = map (timed_seconds h config) [0..<k],
          er_iterations = Some k, er_error = None\<rparr>"
proof -
  let ?f = "temp_stem h @ file_extension impl"
  let ?w = "nat (warmup_iterations config)"
  have lt: "k < nat (iterations config)" using assms(2) by simp
  have w: "write_ok h" using assms(1,3) by (auto simp: timed_success_def)
  have "fst (measurement_runs h impl ?f (nat (iterations config)) ?w [] None) =
      [] @ map (\<lambda>i. wall_clock h (?w + i)) [0..<k]"
    using assms(3,4) w unfolding timed_success_def
    by (intro measurement_runs_stop lt) auto
  then have ts: "fst (measurement_runs h impl ?f (nat (iterations config)) ?w [] None) =
      map (timed_seconds h config) [0..<k]"
    by (simp add: timed_seconds_def [abs_def])
  have ne: "map (timed_seconds h config) [0..<k] \<noteq> []" using assms(1) by simp
  obtain ts' err' where
    m: "measurement_runs h impl ?f (nat (iterations config)) ?w [] None = (ts', err')"
    by (cases "measurement_runs h impl ?f (nat (iterations config)) ?w [] None")
  with ts have ts': "ts' = map (timed_seconds h config) [0..<k]" by simp
  show ?thesis
    using ne w by (simp add: run_single_test_def run_measurements_def Let_def m ts')
qed

theorem partial_run_keeps_timings_witness:
  "int 1 < iterations three_runs \<and> timed_success host_fail_third chez three_runs 0 \<and>
   \<not> timed_success host_fail_third chez three_runs 1 \<and>
   (\<exists>r. snd (run_single_test host_fail_third three_runs (\<lambda>v. ''10'') Map.empty chez fib_test
              [(''n'', 10)] ''recursion'') = Inr r \<and>
        er_success r \<and> er_timing_results r = [1 / 2] \<and> er_iterations r = Some 1)"
proof -
  have k: "(0::nat) < 1" by simp
  have n: "int 1 < iterations three_runs" by (simp add: three_runs_def)
  have s: "\<forall>i<1. timed_success host_fail_third chez three_runs i"
    by (simp add: timed_success_def host_fail_third_def three_runs_def execute_test_file_def)
  have f: "\<not> timed_success host_fail_third chez three_runs 1"
    by (simp add: timed_success_def host_fail_third_def three_runs_def execute_test_file_def)
  have t: "timed_seconds host_fail_third three_runs i = 1 / 2" for i
    by (simp add: timed_seconds_def host_fail_third_def)
  from partial_run_keeps_timings [OF k n s f, of "\<lambda>v. ''10''" Map.empty fib_test
      "[(''n'', 10)]" "''recursion''"]
  have "\<exists>r. snd (run_single_test host_fail_third three_runs (\<lambda>v. ''10'') Map.empty chez fib_test
              [(''n'', 10)] ''recursion'') = Inr r \<and>
        er_success r \<and> er_timing_results r = [1 / 2] \<and> er_iterations r = Some 1"
    by (simp add: t)
  with n s f show ?thesis by simp
qed

lemma temporary_file_removed_when_written:
  assumes "write_ok h"
  shows "fst (run_single_test h config str_of fs impl test params category) =
     fs(temp_stem h @ file_extension impl := None)"
  using assms by (simp add: run_single_test_def Let_def)

lemma temporary_file_left_when_write_fails:
  assumes "\<not> write_ok h"
  shows "run_single_test h config str_of fs impl test params category =
     (fs(temp_stem h @ file_extension impl \<mapsto> []), Inl WriteError)"
  using assms by (simp add: run_single_test_def Let_def)

text \<open>
  Claim C8. The temporary file is created and written before the \<^verbatim>\<open>try\<close> block
  whose \<^verbatim>\<open>finally\<close> clause removes it. On a host where the write fails, the run ends
  with the exception of the write and the file system still holds the temporary file.
  (Once the file is written, it is removed however the run ends, lemma
  \<open>temporary_file_removed_when_written\<close>.)
\<close>

theorem temporary_file_survives_failed_write:
  "fst (run_single_test host_write_fails three_runs (\<lambda>v. ''10'') Map.empty chez fib_test
          [(''n'', 10)] ''recursion'') ''/tmp/tmpk3v9.scm'' = Some [] \<and>
   snd (run_single_test host_write_fails three_runs (\<lambda>v. ''10'') Map.empty chez fib_test
          [(''n'', 10)] ''recursion'') = Inl WriteError"
  by (simp add: run_single_test_def Let_def host_write_fails_def file_extension_def chez_def)

subsection \<open>Statistics Engine\<close>

lemma compare_identical_samples:
  assumes "2 \<le> length data"
  shows "\<exists>c. compare_implementations exact_arithmetic data data impl_a impl_b test_key = Inr c \<and>
    cmp_effect_size c = 0 \<and> \<not> cmp_significant c"
proof -
  from assms have "data \<noteq> []" by auto
  moreover from assms have "int (length data) + int (length data) - 2 \<noteq> 0" by simp
  ultimately show ?thesis
    by (simp add: compare_implementations_def exact_arithmetic_def Let_def)
qed

lemma analysis_raises_on_single_timings:
  "perform_statistical_analysis fl [(''chez'', [measured 100]), (''guile'', [measured 100])] =
     Inl ZeroDivisionError"
  by (simp add: perform_statistical_analysis_def group_results_def group_result_def
      measured_def describe_test_def compare_implementations_def)

lemma descriptive_stats_indices:
  fixes n :: nat
  assumes "0 < n"
  shows "n div 2 < n" and "n div 4 < n" and "3 * n div 4 < n" and "n mod 2 \<noteq> 1 \<Longrightarrow> 1 \<le> n div 2"
  using assms by presburger+

lemma quartiles_always_reported:
  assumes "data \<noteq> []"
  shows "\<exists>s. calculate_descriptive_stats data = Some s \<and>
     ds_q25 s = sort data ! (length data div 4) \<and>
     ds_q75 s = sort data ! (3 * length data div 4)"
  using assms by (simp add: calculate_descriptive_stats_def Let_def)

lemma processor_omits_percentiles:
  assumes "implementation_statistics rs = Some s" and "st_count s < 4"
  shows "st_duration_p25 s = None \<and> st_duration_p75 s = None \<and> st_duration_p90 s = None \<and>
     st_duration_p95 s = None \<and> st_duration_p99 s = None"
  using assms by (auto simp: implementation_statistics_def Let_def split: if_splits)

text \<open>
  Claim C1. The specification has a tie of the two means go to implementation A. The
  code names A the winner only when its mean is strictly lower; two data sets with the
  same mean make B the winner. (On these data the float arithmetic is exact.)
\<close>

theorem tie_goes_to_b_counterexample:
  "compare_implementations exact_arithmetic [1, 1] [1, 1] ''A'' ''B'' ''t'' =
     Inr \<lparr>cmp_impl_a = ''A'', cmp_impl_b = ''B'', cmp_test = ''t'',
          cmp_mean_a = Some 1, cmp_mean_b = Some 1, cmp_effect_size = 0,
          cmp_significant = False, cmp_performance_ratio = 1, cmp_winner = Some ''B''\<rparr>"
  by (simp add: compare_implementations_def exact_arithmetic_def)

text \<open>
  Claim C1, as the code has it. In every float arithmetic, for two non-empty data sets
  that are not both a single point, the comparison returns; the two means it reports
  are the means it computed (\<^verbatim>\<open>sum(data) / len(data)\<close> in that arithmetic); and its
  winner is implementation A when the reported mean of A is strictly lower than the
  reported mean of B, and implementation B otherwise; so B wins when the two reported
  means are equal. (Two single points make the comparison raise, see claim C9; an empty
  data set gives a comparison without a winner.)
\<close>

theorem winner_has_strictly_lower_mean:
  assumes "data_a \<noteq> []" and "data_b \<noteq> []" and "length data_a + length data_b \<noteq> 2"
  shows "\<exists>c mean_a mean_b.
     compare_implementations fl data_a data_b impl_a impl_b test_key = Inr c \<and>
     cmp_mean_a c = Some mean_a \<and> mean_a = sample_mean fl data_a \<and>
     cmp_mean_b c = Some mean_b \<and> mean_b = sample_mean fl data_b \<and>
     cmp_winner c = Some (if mean_a < mean_b then impl_a else impl_b)"
  using assms by (simp add: compare_implementations_def sample_mean_def Let_def)

theorem winner_has_strictly_lower_mean_witness:
  "[1, 2] \<noteq> ([] :: real list) \<and> [3] \<noteq> ([] :: real list) \<and>
   length [1, 2 :: real] + length [3 :: real] \<noteq> 2 \<and>
   (\<exists>c. compare_implementations exact_arithmetic [1, 2] [3] ''A'' ''B'' ''t'' = Inr c \<and>
        cmp_mean_a c = Some (3 / 2) \<and> cmp_mean_b c = Some 3 \<and> cmp_winner c = Some ''A'')"
  using winner_has_strictly_lower_mean [of "[1, 2]" "[3]" exact_arithmetic "''A''" "''B''" "''t''"]
  by (auto simp: sample_mean_def exact_arithmetic_def)

text \<open>
  Claim C9. Comparing a data set of one point with itself divides by
  \<open>1 + 1 - 2 = 0\<close>: in every float arithmetic the comparison raises
  \<^verbatim>\<open>ZeroDivisionError\<close> instead of returning effect size 0, and the exception escapes
  the analysis of two implementations with one timing each (lemma
  \<open>analysis_raises_on_single_timings\<close>). (With two points or more the claim holds, lemma
  \<open>compare_identical_samples\<close>; \<^const>\<open>calculate_descriptive_stats\<close> guards its own
  division by \<open>n - 1\<close>.)
\<close>

theorem compare_single_point_raises:
  "compare_implementations fl [1] [1] ''A'' ''B'' ''t'' = Inl ZeroDivisionError"
  by (simp add: compare_implementations_def)

text \<open>
  Claim C5. On a data set of three points \<^const>\<open>calculate_descriptive_stats\<close>
  still reports both quartiles (here the smallest and the largest value); it reports
  them on every non-empty data set (lemma \<open>quartiles_always_reported\<close>). The result
  processor's \<^const>\<open>implementation_statistics\<close> leaves every percentile out below
  four points (lemma \<open>processor_omits_percentiles\<close>).
\<close>

theorem quartiles_reported_for_three_points:
  "calculate_descriptive_stats [2, 1, 3] =
     Some \<lparr>ds_count = 3, ds_mean = 2, ds_median = 2, ds_std_dev = 1, ds_min = 1, ds_max = 3,
           ds_q25 = 1, ds_q75 = 3\<rparr>"
  by (simp add: calculate_descriptive_stats_def Let_def power2_eq_square)

subsection \<open>Failed results\<close>

lemma group_result_failed: "\<not> er_success r \<Longrightarrow> group_result impl r g = g"
  by (simp add: group_result_def)

lemma fold_group_result_filter:
  "fold (group_result impl) (filter er_success rs) g = fold (group_result impl) rs g"
  by (induction rs arbitrary: g) (simp_all add: group_result_failed)

lemma group_results_drop_failed: "group_results (drop_failed results) = group_results results"
proof -
  have "fold (\<lambda>(impl, impl_results) g. fold (group_result impl) impl_results g)
          (drop_failed results) g0 =
        fold (\<lambda>(impl, impl_results) g. fold (group_result impl) impl_results g) results g0" for g0
    by (induction results arbitrary: g0)
       (auto simp: drop_failed_def fold_group_result_filter)
  then show ?thesis by (simp add: group_results_def)
qed

lemma check_result_failed: "\<not> er_success r \<Longrightarrow> check_result fl impl b r acc = acc"
  by (cases acc) (simp add: check_result_def)

lemma fold_check_result_filter:
  "fold (check_result fl impl b) (filter er_success rs) acc = fold (check_result fl impl b) rs acc"
  by (induction rs arbitrary: acc) (simp_all add: check_result_failed)

lemma check_results_drop_failed:
  "check_results fl baseline (drop_failed results) = check_results fl baseline results"
proof -
  let ?step = "\<lambda>(impl, impl_results) acc.
             case map_of baseline impl of
               None \<Rightarrow> acc
             | Some baseline_impl \<Rightarrow> fold (check_result fl impl baseline_impl) impl_results acc"
  have "fold ?step (drop_failed results) acc = fold ?step results acc" for acc
    by (induction results arbitrary: acc)
       (auto simp: drop_failed_def fold_check_result_filter split: option.splits)
  then show ?thesis by (simp add: check_results_def)
qed

text \<open>
  Claim C7. The statistical analysis (the descriptive statistics of every group and
  every pairwise comparison) and the regression detection give the same output on a
  collection of results and on the collection with every failed result removed: a
  result whose success flag is false contributes nothing to either.
\<close>

theorem failed_results_contribute_nothing:
  "perform_statistical_analysis fl results =
     perform_statistical_analysis fl (drop_failed results) \<and>
   detect_regressions fl regression_baseline load_baseline results =
     detect_regressions fl regression_baseline load_baseline (drop_failed results)"
  by (simp add: perform_statistical_analysis_def detect_regressions_def
      group_results_drop_failed check_results_drop_failed split: option.splits)

subsection \<open>Regression Detector\<close>













end
